theory Spec2Isabelle
  imports Complex_Main
begin

text \<open>
  The Bayesian change point model of \<^verbatim>\<open>src/change_point_model.py\<close> (class
  \<open>BayesianChangePointModel\<close>): the configuration, the two model builders, sampling, the
  convergence check, the summary of the change point posterior and the impact analysis.
  The object is a record that every method takes and, where it assigns to \<open>self\<close>, returns;
  an exception is the left summand of the result. The functions of PyMC and ArviZ
  (\<open>pm.sample\<close>, \<open>az.summary\<close>, \<open>az.hdi\<close>) are parameters; the NumPy, pandas and
  SciPy operations that the methods apply to arrays (\<open>mean\<close>, \<open>std\<close>, \<open>median\<close>,
  \<open>mode\<close>, \<open>max\<close>, \<open>min\<close>, indexing and slicing) are defined below.
\<close>

section \<open>Python and NumPy values\<close>

text \<open>
  The exceptions that \<^verbatim>\<open>change_point_model.py\<close> raises itself (\<open>ValueError\<close> with its
  message) and the ones that are raised underneath it: an index out of range, the conversion
  of a NaN (a \<open>ValueError\<close>) or of an infinity to \<open>int\<close>, a symbolic variable stored in
  a NumPy array (a \<open>ValueError\<close>), and a \<open>TypeError\<close> for a subscript on \<open>None\<close> and
  for the truth value of a symbolic variable.
\<close>

datatype error =
    ValueError string
  | IndexError
  | OverflowError
  | TypeError

text \<open>
  A NumPy \<open>float64\<close>. A finite value is taken as a real (no rounding, no overflow); the
  two zeros are both kept, \<open>Fin 0\<close> for \<open>+0.0\<close> and \<open>NZero\<close> for \<open>-0.0\<close>, and so are the
  three special values, since a division by zero on a NumPy scalar does not raise: it yields
  an infinity, whose sign is the product of the signs of the operands, or a NaN.
\<close>

datatype npfloat = Fin real | NZero | PInf | NInf | NaN


definition is_zero :: "npfloat \<Rightarrow> bool" where
  "is_zero x = (x = Fin 0 \<or> x = NZero)"

definition zero_of :: "bool \<Rightarrow> npfloat" where
  "zero_of negative = (if negative then NZero else Fin 0)"

definition inf_of :: "bool \<Rightarrow> npfloat" where
  "inf_of negative = (if negative then NInf else PInf)"

fun fneg :: "npfloat \<Rightarrow> npfloat" where
  "fneg (Fin a) = (if a = 0 then NZero else Fin (- a))"
| "fneg NZero = Fin 0"
| "fneg PInf = NInf"
| "fneg NInf = PInf"
| "fneg NaN = NaN"

text \<open>Addition: a sum that is zero is \<open>+0.0\<close> unless both operands are \<open>-0.0\<close>.\<close>

fun fadd :: "npfloat \<Rightarrow> npfloat \<Rightarrow> npfloat" where
  "fadd (Fin a) (Fin b) = Fin (a + b)"
| "fadd (Fin a) NZero = Fin a"
| "fadd NZero (Fin b) = Fin b"
| "fadd NZero NZero = NZero"
| "fadd NaN _ = NaN"
| "fadd _ NaN = NaN"
| "fadd PInf NInf = NaN"
| "fadd NInf PInf = NaN"
| "fadd PInf _ = PInf"
| "fadd _ PInf = PInf"
| "fadd NInf _ = NInf"
| "fadd _ NInf = NInf"

definition fsub :: "npfloat \<Rightarrow> npfloat \<Rightarrow> npfloat" where
  "fsub x y = fadd x (fneg y)"

text \<open>Division: a finite value that is not zero over a zero is an infinity, zero over zero
  and infinity over infinity are NaN; the sign of a zero or infinite quotient is negative
  exactly when the signs of the operands differ.\<close>

fun fdiv :: "npfloat \<Rightarrow> npfloat \<Rightarrow> npfloat" where
  "fdiv NaN _ = NaN"
| "fdiv _ NaN = NaN"
| "fdiv (Fin a) (Fin b) =
     (if b = 0 then (if a = 0 then NaN else inf_of (a < 0))
      else if a = 0 then zero_of (b < 0)
      else Fin (a / b))"
| "fdiv (Fin a) NZero = (if a = 0 then NaN else inf_of (\<not> a < 0))"
| "fdiv NZero (Fin b) = (if b = 0 then NaN else zero_of (\<not> b < 0))"
| "fdiv NZero NZero = NaN"
| "fdiv (Fin a) PInf = zero_of (a < 0)"
| "fdiv (Fin a) NInf = zero_of (\<not> a < 0)"
| "fdiv NZero PInf = NZero"
| "fdiv NZero NInf = Fin 0"
| "fdiv PInf (Fin b) = inf_of (b < 0)"
| "fdiv PInf NZero = NInf"
| "fdiv NInf (Fin b) = inf_of (\<not> b < 0)"
| "fdiv NInf NZero = PInf"
| "fdiv _ _ = NaN"

fun fmul :: "npfloat \<Rightarrow> npfloat \<Rightarrow> npfloat" where
  "fmul NaN _ = NaN"
| "fmul _ NaN = NaN"
| "fmul (Fin a) (Fin b) = (if a * b = 0 then zero_of ((a < 0) \<noteq> (b < 0)) else Fin (a * b))"
| "fmul (Fin a) NZero = zero_of (\<not> a < 0)"
| "fmul NZero (Fin b) = zero_of (\<not> b < 0)"
| "fmul NZero NZero = Fin 0"
| "fmul (Fin a) PInf = (if a = 0 then NaN else inf_of (a < 0))"
| "fmul (Fin a) NInf = (if a = 0 then NaN else inf_of (\<not> a < 0))"
| "fmul PInf (Fin b) = (if b = 0 then NaN else inf_of (b < 0))"
| "fmul NInf (Fin b) = (if b = 0 then NaN else inf_of (\<not> b < 0))"
| "fmul NZero _ = NaN"
| "fmul _ NZero = NaN"
| "fmul PInf PInf = PInf"
| "fmul PInf NInf = NInf"
| "fmul NInf PInf = NInf"
| "fmul NInf NInf = PInf"

fun fsqrt :: "npfloat \<Rightarrow> npfloat" where
  "fsqrt (Fin a) = (if a < 0 then NaN else Fin (sqrt a))"
| "fsqrt NZero = NZero"
| "fsqrt PInf = PInf"
| "fsqrt _ = NaN"

text \<open>Comparisons: the two zeros are equal, and every comparison with a NaN is false.\<close>

fun flt :: "npfloat \<Rightarrow> npfloat \<Rightarrow> bool" where
  "flt (Fin a) (Fin b) = (a < b)"
| "flt (Fin a) NZero = (a < 0)"
| "flt NZero (Fin b) = (0 < b)"
| "flt (Fin a) PInf = True"
| "flt NZero PInf = True"
| "flt NInf (Fin b) = True"
| "flt NInf NZero = True"
| "flt NInf PInf = True"
| "flt _ _ = False"

definition fgt :: "npfloat \<Rightarrow> npfloat \<Rightarrow> bool" where
  "fgt x y = flt y x"

text \<open>\<open>int(x)\<close> of a float truncates toward zero; it raises on NaN and on an infinity.\<close>

definition trunc :: "real \<Rightarrow> int" where
  "trunc x = (if 0 \<le> x then \<lfloor>x\<rfloor> else \<lceil>x\<rceil>)"

fun py_int :: "npfloat \<Rightarrow> error + int" where
  "py_int (Fin x) = Inr (trunc x)"
| "py_int NZero = Inr 0"
| "py_int NaN = Inl (ValueError ''cannot convert float NaN to integer'')"
| "py_int _ = Inl OverflowError"

text \<open>\<open>a.mean()\<close> and \<open>a.std()\<close> of a one-dimensional array. The mean is the sum over
  the number of elements; the sum starts from the first element, so that a sum of negative
  zeros is the negative zero. The standard deviation is the population one (\<open>ddof = 0\<close>):
  the square root of the mean of the squared deviations. Both are NaN on the empty array.\<close>

definition np_mean :: "npfloat list \<Rightarrow> npfloat" where
  "np_mean xs =
     (case xs of
        [] \<Rightarrow> NaN
      | x # rest \<Rightarrow> fdiv (foldl fadd x rest) (Fin (real (length xs))))"

definition np_std :: "npfloat list \<Rightarrow> npfloat" where
  "np_std xs =
     (let m = np_mean xs
      in fsqrt (np_mean (map (\<lambda>x. fmul (fsub x m) (fsub x m)) xs)))"

text \<open>\<open>np.median\<close>: the middle of the sorted values, the mean of the two middle ones when
  their number is even.\<close>

definition np_median :: "real list \<Rightarrow> npfloat" where
  "np_median xs =
     (let s = sort xs; n = length s
      in if n = 0 then NaN
         else if odd n then Fin (s ! (n div 2))
         else Fin ((s ! (n div 2 - 1) + s ! (n div 2)) / 2))"

text \<open>\<open>scipy.stats.mode\<close>: the most frequent value, the smallest one among several; NaN on
  the empty array.\<close>

definition stats_mode :: "real list \<Rightarrow> npfloat" where
  "stats_mode xs =
     (case filter (\<lambda>x. list_all (\<lambda>y. count_list xs y \<le> count_list xs x) xs) xs of
        [] \<Rightarrow> NaN
      | c # cs \<Rightarrow> Fin (fold min cs c))"

text \<open>Subscript with one integer: a negative index counts from the end, and an index outside
  \<open>[-n, n)\<close> raises.\<close>

definition py_index :: "'a list \<Rightarrow> int \<Rightarrow> error + 'a" where
  "py_index xs i =
     (if 0 \<le> i \<and> i < int (length xs) then Inr (xs ! nat i)
      else if i < 0 \<and> - int (length xs) \<le> i then Inr (xs ! nat (int (length xs) + i))
      else Inl IndexError)"

text \<open>A slice bound is brought into \<open>[0, n]\<close>: a negative bound counts from the end, and
  what still lies outside is clipped. The slice \<open>xs[a:b]\<close> never raises.\<close>

definition slice_bound :: "nat \<Rightarrow> int \<Rightarrow> nat" where
  "slice_bound n i = (if i < 0 then nat (max 0 (int n + i)) else min (nat i) n)"

definition py_slice :: "'a list \<Rightarrow> int \<Rightarrow> int \<Rightarrow> 'a list" where
  "py_slice xs a b =
     (let lo = slice_bound (length xs) a; hi = slice_bound (length xs) b
      in take (hi - lo) (drop lo xs))"

text \<open>Sequencing of computations that may raise.\<close>

fun ebind :: "error + 'a \<Rightarrow> ('a \<Rightarrow> error + 'b) \<Rightarrow> error + 'b" where
  "ebind (Inl e) f = Inl e"
| "ebind (Inr v) f = f v"

fun emap :: "('a \<Rightarrow> error + 'b) \<Rightarrow> 'a list \<Rightarrow> error + 'b list" where
  "emap f [] = Inr []"
| "emap f (x # xs) = ebind (f x) (\<lambda>y. ebind (emap f xs) (\<lambda>ys. Inr (y # ys)))"

section \<open>The model object\<close>

type_synonym date = nat

text \<open>A configuration value (a number or a string), and a nested dictionary such as
  \<^verbatim>\<open>{'distribution': 'normal', 'mu': 0, 'sigma': 1}\<close>, kept with its order.\<close>

datatype cfgval = Num real | Str string

type_synonym cfgdict = "(string \<times> cfgval) list"

record sampling_cfg =
  draws :: nat
  tune :: nat
  chains :: nat
  target_accept :: real

record convergence_cfg =
  rhat_threshold :: real
  ess_threshold :: real

record config =
  model_type :: string
  tau_prior :: cfgdict
  mu_prior :: cfgdict
  sigma_prior :: cfgdict
  sampling :: sampling_cfg
  convergence :: convergence_cfg

text \<open>The optional \<open>model_config\<close> argument: each top-level key is present or absent.
  \<open>dict.update\<close> replaces the value of every key that is present, as a whole.\<close>

record model_config =
  mc_model_type :: "string option"
  mc_tau_prior :: "cfgdict option"
  mc_mu_prior :: "cfgdict option"
  mc_sigma_prior :: "cfgdict option"
  mc_sampling :: "sampling_cfg option"
  mc_convergence :: "convergence_cfg option"

definition dict_update :: "config \<Rightarrow> model_config \<Rightarrow> config" where
  "dict_update c mc =
     \<lparr> model_type = (case mc_model_type mc of None \<Rightarrow> model_type c | Some v \<Rightarrow> v),
       tau_prior = (case mc_tau_prior mc of None \<Rightarrow> tau_prior c | Some v \<Rightarrow> v),
       mu_prior = (case mc_mu_prior mc of None \<Rightarrow> mu_prior c | Some v \<Rightarrow> v),
       sigma_prior = (case mc_sigma_prior mc of None \<Rightarrow> sigma_prior c | Some v \<Rightarrow> v),
       sampling = (case mc_sampling mc of None \<Rightarrow> sampling c | Some v \<Rightarrow> v),
       convergence = (case mc_convergence mc of None \<Rightarrow> convergence c | Some v \<Rightarrow> v) \<rparr>"

definition default_config :: "nat \<Rightarrow> config" where
  "default_config n =
     \<lparr> model_type = ''single_change_point'',
       tau_prior = [(''distribution'', Str ''uniform''), (''lower'', Num 0), (''upper'', Num (real n))],
       mu_prior = [(''distribution'', Str ''normal''), (''mu'', Num 0), (''sigma'', Num 1)],
       sigma_prior = [(''distribution'', Str ''halfnormal''), (''sigma'', Num 1)],
       sampling = \<lparr> draws = 3000, tune = 1000, chains = 4, target_accept = 99 / 100 \<rparr>,
       convergence = \<lparr> rhat_threshold = 101 / 100, ess_threshold = 400 \<rparr> \<rparr>"

text \<open>The probabilistic model, as the graph that the builder declares: the distribution of
  every named random variable, the deterministic expressions and the observed data.\<close>

datatype dist =
    Normal real real
  | Exponential real
  | HalfNormal real
  | Dirichlet "real list"

definition sigmoid :: "real \<Rightarrow> real" where
  "sigmoid x = 1 / (1 + exp (- x))"

record single_model =
  sm_t :: "nat list"
  sm_tau :: dist
  sm_k :: dist
  sm_mu1 :: dist
  sm_mu2 :: dist
  sm_sigma :: dist
  sm_mean :: "real \<Rightarrow> real \<Rightarrow> real \<Rightarrow> real \<Rightarrow> real list"
  sm_observed :: "npfloat list"

record multi_model =
  mm_taus :: dist
  mm_changepoints :: "real list \<Rightarrow> int list"
  mm_mus :: dist
  mm_mus_shape :: nat
  mm_sigma :: dist
  mm_mean :: "real list"
  mm_observed :: "npfloat list"

datatype pm_model = SingleModel single_model | MultiModel multi_model

text \<open>The posterior group of a trace: the draws of \<open>tau\<close> with shape (chain, draw), or the
  draws of \<open>changepoints\<close>, an integer array with shape (chain, draw, \<open>cp_shape2\<close>) and the
  entry \<open>cp_at c d i\<close> at every position inside it, when the variable is there. The other
  variables of the trace are read by no function below. A draw of \<open>tau\<close> is taken as a
  real: neither the conversion to \<open>int\<close> nor a comparison tells the two zeros apart.\<close>

record changepoint_array =
  cp_chains :: nat
  cp_draws :: nat
  cp_shape2 :: nat
  cp_at :: "nat \<Rightarrow> nat \<Rightarrow> nat \<Rightarrow> int"

record trace =
  tau_var :: "real list list option"
  changepoints_var :: "changepoint_array option"

text \<open>One row of the table of \<open>az.summary\<close>, with the columns that are read.\<close>

record summary_row =
  r_hat :: real
  ess_bulk :: real
  mcse_mean :: real
  sd :: real

record bcp =
  data :: "npfloat list"
  dates :: "date list"
  n_obs :: nat
  config :: config
  model :: "pm_model option"
  trace :: "trace option"
  summary :: "summary_row list option"
  posterior :: "trace option"

text \<open>\<open>__init__\<close>: the series is a list of dated values, NaN for a missing one; \<open>dropna\<close>
  removes those. A \<open>model_config\<close> that is \<open>None\<close> or the empty dictionary updates
  nothing.\<close>

definition dropna :: "(date \<times> npfloat) list \<Rightarrow> (date \<times> npfloat) list" where
  "dropna s = filter (\<lambda>(d, v). v \<noteq> NaN) s"

definition init :: "(date \<times> npfloat) list \<Rightarrow> model_config option \<Rightarrow> bcp" where
  "init s mc =
     (let vals = map snd (dropna s); n = length vals
      in \<lparr> data = vals,
           dates = map fst (dropna s),
           n_obs = n,
           config = (case mc of None \<Rightarrow> default_config n
                     | Some u \<Rightarrow> dict_update (default_config n) u),
           model = None, trace = None, summary = None, posterior = None \<rparr>)"

subsection \<open>The two builders\<close>

definition build_single_change_point_model :: "bcp \<Rightarrow> pm_model \<times> bcp" where
  "build_single_change_point_model self =
     (let m = SingleModel
        \<lparr> sm_t = [0..<n_obs self],
          sm_tau = Normal (real (n_obs self) / 2) (real (n_obs self) / 10),
          sm_k = Exponential (1 / 5),
          sm_mu1 = Normal 0 (2 / 100),
          sm_mu2 = Normal 0 (2 / 100),
          sm_sigma = HalfNormal (5 / 100),
          sm_mean = (\<lambda>tau k mu1 mu2.
             map (\<lambda>t. let w = sigmoid ((real t - tau) / k) in mu1 * (1 - w) + mu2 * w)
               [0..<n_obs self]),
          sm_observed = data self \<rparr>
      in (m, self\<lparr>model := Some m\<rparr>))"

text \<open>\<open>cumsum(taus * n_obs).astype(int)\<close>: the running sums of the scaled fractions, each
  truncated toward zero.\<close>

fun cumsum_from :: "real \<Rightarrow> real list \<Rightarrow> real list" where
  "cumsum_from acc [] = []"
| "cumsum_from acc (x # xs) = (acc + x) # cumsum_from (acc + x) xs"

definition cumsum :: "real list \<Rightarrow> real list" where
  "cumsum xs = cumsum_from 0 xs"

definition changepoints :: "nat \<Rightarrow> real list \<Rightarrow> int list" where
  "changepoints n taus = map trunc (cumsum (map (\<lambda>t. t * real n) taus))"

text \<open>
  The loop of the multiple change point builder over \<open>range(n_obs)\<close>, with the mean array
  of zeros that it is to fill. \<open>changepoints\<close> and \<open>mus\<close> are symbolic variables of the
  model, so the first iteration raises: when \<open>segment_idx < n_changepoints\<close> holds, the
  \<open>and\<close> yields the symbolic comparison \<open>i >= changepoints[segment_idx]\<close> and the \<open>if\<close>
  asks for its truth value, a \<open>TypeError\<close> (line 111); otherwise line 113 stores the symbolic
  \<open>mus[segment_idx]\<close> in a NumPy array of floats, which NumPy refuses. On the empty range
  the body never runs and the array is returned as it is.
\<close>

fun mean_array_loop :: "nat \<Rightarrow> nat \<Rightarrow> nat list \<Rightarrow> error + real list" where
  "mean_array_loop n_changepoints segment_idx [] = Inr []"
| "mean_array_loop n_changepoints segment_idx (i # rest) =
     (if segment_idx < n_changepoints then Inl TypeError
      else Inl (ValueError ''setting an array element with a sequence.''))"

text \<open>The builder declares the Dirichlet fractions and the change points, then runs the
  loop; the exception of the loop leaves the \<open>with\<close> block before \<open>self.model\<close> is
  assigned. The declarations of PyMC are taken to succeed, as in the single builder.\<close>

definition build_multiple_change_points_model ::
  "nat \<Rightarrow> bcp \<Rightarrow> (error + pm_model) \<times> bcp" where
  "build_multiple_change_points_model n_changepoints self =
     (case mean_array_loop n_changepoints 0 [0..<n_obs self] of
        Inl e \<Rightarrow> (Inl e, self)
      | Inr mean_array \<Rightarrow>
          (let m = MultiModel
             \<lparr> mm_taus = Dirichlet (replicate (n_changepoints + 1) 1),
               mm_changepoints = changepoints (n_obs self),
               mm_mus = Normal 0 1,
               mm_mus_shape = n_changepoints + 1,
               mm_sigma = HalfNormal 1,
               mm_mean = mean_array,
               mm_observed = data self \<rparr>
           in (Inr m, self\<lparr>model := Some m\<rparr>)))"

subsection \<open>Sampling\<close>

text \<open>\<open>pm.sample\<close> and \<open>az.summary\<close> belong to PyMC and ArviZ: they are parameters here.
  The keyword arguments are the number of change points and the sampling parameters that
  replace the configured ones.\<close>

record sample_kwargs =
  kw_n_changepoints :: "nat option"
  kw_draws :: "nat option"
  kw_tune :: "nat option"
  kw_chains :: "nat option"
  kw_target_accept :: "real option"

definition sampling_params :: "sampling_cfg \<Rightarrow> sample_kwargs \<Rightarrow> sampling_cfg" where
  "sampling_params c kw =
     \<lparr> draws = (case kw_draws kw of None \<Rightarrow> draws c | Some v \<Rightarrow> v),
       tune = (case kw_tune kw of None \<Rightarrow> tune c | Some v \<Rightarrow> v),
       chains = (case kw_chains kw of None \<Rightarrow> chains c | Some v \<Rightarrow> v),
       target_accept = (case kw_target_accept kw of None \<Rightarrow> target_accept c | Some v \<Rightarrow> v) \<rparr>"

definition run_sampling ::
  "(pm_model \<Rightarrow> sampling_cfg \<Rightarrow> trace) \<Rightarrow> (trace \<Rightarrow> summary_row list) \<Rightarrow>
   sample_kwargs \<Rightarrow> pm_model \<times> bcp \<Rightarrow> (error + trace) \<times> bcp" where
  "run_sampling pm_sample az_summary kw built =
     (let self = snd built;
          tr = pm_sample (fst built) (sampling_params (sampling (config self)) kw)
      in (Inr tr, self\<lparr>trace := Some tr, summary := Some (az_summary tr), posterior := Some tr\<rparr>))"

definition sample ::
  "(pm_model \<Rightarrow> sampling_cfg \<Rightarrow> trace) \<Rightarrow> (trace \<Rightarrow> summary_row list) \<Rightarrow>
   string \<Rightarrow> sample_kwargs \<Rightarrow> bcp \<Rightarrow> (error + trace) \<times> bcp" where
  "sample pm_sample az_summary mtype kw self =
     (if mtype = ''single'' then
        run_sampling pm_sample az_summary kw (build_single_change_point_model self)
      else if mtype = ''multiple'' then
        (case build_multiple_change_points_model
                (case kw_n_changepoints kw of None \<Rightarrow> 3 | Some k \<Rightarrow> k) self of
           (Inl e, self') \<Rightarrow> (Inl e, self')
         | (Inr m, self') \<Rightarrow> run_sampling pm_sample az_summary kw (m, self'))
      else (Inl (ValueError (''Unknown model type: '' @ mtype)), self))"

section \<open>Convergence diagnostics\<close>

text \<open>\<open>Series.max()\<close> and \<open>Series.min()\<close> of pandas skip NaN entries and give NaN when
  nothing is left.\<close>

definition fmax :: "npfloat \<Rightarrow> npfloat \<Rightarrow> npfloat" where
  "fmax x y = (if flt x y then y else x)"

definition fmin :: "npfloat \<Rightarrow> npfloat \<Rightarrow> npfloat" where
  "fmin x y = (if flt y x then y else x)"

definition pd_max :: "npfloat list \<Rightarrow> npfloat" where
  "pd_max xs = (case filter (\<lambda>x. x \<noteq> NaN) xs of [] \<Rightarrow> NaN | y # ys \<Rightarrow> fold fmax ys y)"

definition pd_min :: "npfloat list \<Rightarrow> npfloat" where
  "pd_min xs = (case filter (\<lambda>x. x \<noteq> NaN) xs of [] \<Rightarrow> NaN | y # ys \<Rightarrow> fold fmin ys y)"

record diagnostics =
  rhat_max :: npfloat
  rhat_converged :: bool
  ess_min :: npfloat
  ess_sufficient :: bool
  trace_plots_ok :: bool
  mcse_ratio_max :: npfloat

definition no_trace :: error where
  "no_trace = ValueError ''No trace available. Run sampling first.''"

definition check_convergence :: "bcp \<Rightarrow> error + diagnostics" where
  "check_convergence self =
     (case trace self of
        None \<Rightarrow> Inl no_trace
      | Some _ \<Rightarrow>
          (case summary self of
             None \<Rightarrow> Inl TypeError
           | Some rows \<Rightarrow>
               (let rmax = pd_max (map (\<lambda>r. Fin (r_hat r)) rows);
                    emin = pd_min (map (\<lambda>r. Fin (ess_bulk r)) rows)
                in Inr \<lparr> rhat_max = rmax,
                         rhat_converged = flt rmax (Fin (rhat_threshold (convergence (config self)))),
                         ess_min = emin,
                         ess_sufficient = fgt emin (Fin (ess_threshold (convergence (config self)))),
                         trace_plots_ok = True,
                         mcse_ratio_max =
                           pd_max (map (\<lambda>r. fdiv (Fin (mcse_mean r)) (Fin (sd r))) rows) \<rparr>)))"

section \<open>Posterior summary\<close>

record single_posterior =
  sp_samples :: "real list"
  sp_dates :: "date list"
  sp_mean :: int
  sp_median :: int
  sp_mode :: int
  sp_mean_date :: date
  sp_median_date :: date
  sp_mode_date :: date
  sp_hdi_95 :: "real \<times> real"
  sp_hdi_95_dates :: "date \<times> date"

record cp_estimate =
  ce_index :: nat
  ce_samples :: "int list"
  ce_mean :: int
  ce_mean_date :: date
  ce_hdi_95 :: "real \<times> real"

datatype cp_info = SingleInfo single_posterior | MultipleInfo "cp_estimate list"

text \<open>\<^verbatim>\<open>self.dates[int(t)] if t < len(self.dates) else self.dates[-1]\<close>, for a float
  \<open>t\<close>, and the same with an integer that is already converted.\<close>

definition date_of_sample :: "date list \<Rightarrow> real \<Rightarrow> error + date" where
  "date_of_sample ds t =
     (if t < real (length ds) then py_index ds (trunc t) else py_index ds (- 1))"

definition date_of_index :: "date list \<Rightarrow> int \<Rightarrow> error + date" where
  "date_of_index ds i =
     (if i < int (length ds) then py_index ds i else py_index ds (- 1))"

text \<open>\<open>az.hdi\<close> belongs to ArviZ: the function that gives the two ends of the interval is
  a parameter.\<close>

definition summarize_single ::
  "(real list \<Rightarrow> real \<times> real) \<Rightarrow> date list \<Rightarrow> real list list \<Rightarrow> error + single_posterior" where
  "summarize_single hdi ds tau =
     (let tau_samples = concat tau in
      ebind (emap (date_of_sample ds) tau_samples) (\<lambda>tau_dates.
      ebind (py_int (np_mean (map Fin tau_samples))) (\<lambda>tau_mean.
      ebind (py_int (np_median tau_samples)) (\<lambda>tau_median.
      ebind (py_int (stats_mode tau_samples)) (\<lambda>tau_mode.
      let tau_hdi = hdi tau_samples in
      ebind (date_of_index ds tau_mean) (\<lambda>mean_date.
      ebind (date_of_index ds tau_median) (\<lambda>median_date.
      ebind (date_of_index ds tau_mode) (\<lambda>mode_date.
      ebind (date_of_sample ds (fst tau_hdi)) (\<lambda>lower_date.
      ebind (date_of_sample ds (snd tau_hdi)) (\<lambda>upper_date.
      Inr \<lparr> sp_samples = tau_samples, sp_dates = tau_dates,
            sp_mean = tau_mean, sp_median = tau_median, sp_mode = tau_mode,
            sp_mean_date = mean_date, sp_median_date = median_date,
            sp_mode_date = mode_date, sp_hdi_95 = tau_hdi,
            sp_hdi_95_dates = (lower_date, upper_date) \<rparr>))))))))))"

text \<open>\<^verbatim>\<open>changepoint_samples[:, :, i].flatten()\<close>\<close>

definition cp_column :: "changepoint_array \<Rightarrow> nat \<Rightarrow> int list" where
  "cp_column arr i =
     concat (map (\<lambda>c. map (\<lambda>d. cp_at arr c d i) [0..<cp_draws arr]) [0..<cp_chains arr])"

definition summarize_one ::
  "(real list \<Rightarrow> real \<times> real) \<Rightarrow> date list \<Rightarrow> changepoint_array \<Rightarrow> nat \<Rightarrow> error + cp_estimate" where
  "summarize_one hdi ds arr i =
     (let cp_samples = cp_column arr i in
      ebind (py_int (np_mean (map (\<lambda>c. Fin (real_of_int c)) cp_samples))) (\<lambda>cp_mean.
      ebind (date_of_index ds cp_mean) (\<lambda>mean_date.
      Inr \<lparr> ce_index = i, ce_samples = cp_samples, ce_mean = cp_mean,
            ce_mean_date = mean_date, ce_hdi_95 = hdi (map real_of_int cp_samples) \<rparr>)))"

definition get_change_point_posterior ::
  "(real list \<Rightarrow> real \<times> real) \<Rightarrow> bcp \<Rightarrow> error + cp_info" where
  "get_change_point_posterior hdi self =
     (case trace self of
        None \<Rightarrow> Inl no_trace
      | Some tr \<Rightarrow>
          (case tau_var tr of
             Some tau \<Rightarrow> ebind (summarize_single hdi (dates self) tau) (\<lambda>p. Inr (SingleInfo p))
           | None \<Rightarrow>
               (case changepoints_var tr of
                  Some arr \<Rightarrow>
                    ebind (emap (summarize_one hdi (dates self) arr) [0..<cp_shape2 arr])
                      (\<lambda>results. Inr (MultipleInfo results))
                | None \<Rightarrow> Inl (ValueError ''No change point variables found in trace''))))"

section \<open>Impact analysis\<close>

record window_stats =
  ws_mean :: npfloat
  ws_std :: npfloat
  ws_n_obs :: nat

record impact_deltas =
  mean_change :: npfloat
  percent_change :: npfloat
  volatility_change :: npfloat
  effect_size :: npfloat

record single_impact =
  change_point_index :: int
  change_point_date :: date
  before :: window_stats
  after :: window_stats
  impact :: impact_deltas

record multi_impact =
  mi_change_point_index :: int
  mi_change_point_date :: date
  mi_before_mean :: npfloat
  mi_after_mean :: npfloat
  mi_mean_change :: npfloat
  mi_percent_change :: npfloat

datatype impact_report = SingleImpact single_impact | MultipleImpact "multi_impact list"

definition before_window :: "'a list \<Rightarrow> int \<Rightarrow> int \<Rightarrow> 'a list" where
  "before_window xs m window_before = py_slice xs (max 0 (m - window_before)) m"

definition after_window :: "'a list \<Rightarrow> int \<Rightarrow> int \<Rightarrow> 'a list" where
  "after_window xs m window_after = py_slice xs m (min (int (length xs)) (m + window_after))"

definition impact_single :: "npfloat list \<Rightarrow> int \<Rightarrow> int \<Rightarrow> single_posterior \<Rightarrow> single_impact" where
  "impact_single xs window_before window_after info =
     (let tau_mode = sp_mode info;
          before_data = before_window xs tau_mode window_before;
          after_data = after_window xs tau_mode window_after
      in \<lparr> change_point_index = tau_mode,
           change_point_date = sp_mode_date info,
           before = \<lparr> ws_mean = np_mean before_data, ws_std = np_std before_data,
                      ws_n_obs = length before_data \<rparr>,
           after = \<lparr> ws_mean = np_mean after_data, ws_std = np_std after_data,
                     ws_n_obs = length after_data \<rparr>,
           impact =
             \<lparr> mean_change = fsub (np_mean after_data) (np_mean before_data),
               percent_change =
                 fmul (fdiv (fsub (np_mean after_data) (np_mean before_data)) (np_mean before_data))
                   (Fin 100),
               volatility_change = fsub (np_std after_data) (np_std before_data),
               effect_size =
                 fdiv (fsub (np_mean after_data) (np_mean before_data)) (np_std before_data) \<rparr> \<rparr>)"

definition impact_multi :: "npfloat list \<Rightarrow> int \<Rightarrow> int \<Rightarrow> cp_estimate \<Rightarrow> multi_impact" where
  "impact_multi xs window_before window_after cp =
     (let cp_idx = ce_mean cp;
          before_data = before_window xs cp_idx window_before;
          after_data = after_window xs cp_idx window_after
      in \<lparr> mi_change_point_index = cp_idx,
           mi_change_point_date = ce_mean_date cp,
           mi_before_mean = np_mean before_data,
           mi_after_mean = np_mean after_data,
           mi_mean_change = fsub (np_mean after_data) (np_mean before_data),
           mi_percent_change =
             fmul (fdiv (fsub (np_mean after_data) (np_mean before_data)) (np_mean before_data))
               (Fin 100) \<rparr>)"

definition calculate_impact ::
  "(real list \<Rightarrow> real \<times> real) \<Rightarrow> int \<Rightarrow> int \<Rightarrow> bcp \<Rightarrow> error + impact_report" where
  "calculate_impact hdi window_before window_after self =
     (case trace self of
        None \<Rightarrow> Inl no_trace
      | Some _ \<Rightarrow>
          ebind (get_change_point_posterior hdi self) (\<lambda>info.
            case info of
              SingleInfo p \<Rightarrow>
                Inr (SingleImpact (impact_single (data self) window_before window_after p))
            | MultipleInfo cps \<Rightarrow>
                Inr (MultipleImpact (map (impact_multi (data self) window_before window_after) cps))))"

section \<open>Notions used to state the properties\<close>

text \<open>The elements of a list whose index lies in the half-open range \<open>[lo, hi)\<close>.\<close>

definition index_range :: "'a list \<Rightarrow> int \<Rightarrow> int \<Rightarrow> 'a list" where
  "index_range xs lo hi =
     map ((!) xs) (filter (\<lambda>i. lo \<le> int i \<and> int i < hi) [0..<length xs])"


text \<open>The mean and the mode as the specification words them: the pool mean rounded to the
  nearest integer, and the most frequent value among the rounded draws.\<close>

definition nearest_index_mean :: "real list \<Rightarrow> int" where
  "nearest_index_mean xs = round (sum_list xs / real (length xs))"

definition mode_of_rounded :: "real list \<Rightarrow> npfloat" where
  "mode_of_rounded xs = stats_mode (map (\<lambda>x. real_of_int (round x)) xs)"

text \<open>An interval function to run the summary on concrete pools: from the smallest draw to
  the largest. On fewer than twenty draws every interval that holds 95% of them holds them
  all, so this is the narrowest one.\<close>

definition sample_range :: "real list \<Rightarrow> real \<times> real" where
  "sample_range xs = (case xs of [] \<Rightarrow> (0, 0) | y # ys \<Rightarrow> (fold min ys y, fold max ys y))"

text \<open>A call of \<open>sample\<close> with no keyword argument.\<close>

definition no_kwargs :: sample_kwargs where
  "no_kwargs = \<lparr> kw_n_changepoints = None, kw_draws = None, kw_tune = None,
                  kw_chains = None, kw_target_accept = None \<rparr>"

section \<open>Facts about the Python and NumPy values\<close>

lemmas float_defs = fsub_def zero_of_def inf_of_def is_zero_def

lemmas summary_defs = get_change_point_posterior_def init_def dropna_def summarize_single_def
  date_of_sample_def date_of_index_def py_index_def trunc_def np_mean_def np_median_def
  stats_mode_def sample_range_def float_defs Let_def

lemmas window_defs = before_window_def after_window_def py_slice_def slice_bound_def

lemmas stats_defs = np_mean_def np_std_def float_defs Let_def

lemma ebind_Inr: "ebind x f = Inr r \<Longrightarrow> \<exists>v. x = Inr v \<and> f v = Inr r"
  by (cases x) auto

lemma foldl_fadd_Fin: "foldl fadd (Fin a) (map Fin ys) = Fin (a + sum_list ys)"
  by (induction ys arbitrary: a) (simp_all add: add.assoc)

lemma np_mean_map_Fin:
  "np_mean (map Fin xs) = (if xs = [] then NaN else Fin (sum_list xs / real (length xs)))"
proof (cases xs)
  case Nil
  then show ?thesis by (simp add: np_mean_def)
next
  case (Cons x rest)
  then show ?thesis
    by (simp add: np_mean_def foldl_fadd_Fin zero_of_def)
qed

lemma trunc_mono: "x \<le> y \<Longrightarrow> trunc x \<le> trunc y"
proof -
  assume xy: "x \<le> y"
  consider "0 \<le> x" | "x < 0" "0 \<le> y" | "x < 0" "y < 0" by linarith
  then show ?thesis
  proof cases
    case 1
    with xy have "0 \<le> y" by simp
    with 1 xy show ?thesis by (simp add: trunc_def floor_mono)
  next
    case 2
    then have "\<lceil>x\<rceil> \<le> 0" and "0 \<le> \<lfloor>y\<rfloor>"
      by (simp_all add: ceiling_le_iff)
    moreover from 2 have "trunc x = \<lceil>x\<rceil>" and "trunc y = \<lfloor>y\<rfloor>"
      by (simp_all add: trunc_def)
    ultimately show ?thesis by linarith
  next
    case 3
    with xy show ?thesis by (simp add: trunc_def ceiling_mono)
  qed
qed

section \<open>The multiple change point model: ordered change points\<close>

lemma cumsum_from_ge: "\<forall>x\<in>set xs. 0 \<le> x \<Longrightarrow> y \<in> set (cumsum_from acc xs) \<Longrightarrow> acc \<le> y"
proof (induction xs arbitrary: acc)
  case Nil
  then show ?case by simp
next
  case (Cons x xs)
  from Cons.prems have "0 \<le> x" and rest: "\<forall>z\<in>set xs. 0 \<le> z" by simp_all
  from Cons.prems(2) consider "y = acc + x" | "y \<in> set (cumsum_from (acc + x) xs)" by auto
  then show ?case
  proof cases
    case 1
    with \<open>0 \<le> x\<close> show ?thesis by simp
  next
    case 2
    from Cons.IH[OF rest 2] \<open>0 \<le> x\<close> show ?thesis by simp
  qed
qed

lemma cumsum_from_sorted: "\<forall>x\<in>set xs. 0 \<le> x \<Longrightarrow> sorted (cumsum_from acc xs)"
proof (induction xs arbitrary: acc)
  case Nil
  then show ?case by simp
next
  case (Cons x xs)
  then have rest: "\<forall>z\<in>set xs. 0 \<le> z" by simp
  have "\<forall>y\<in>set (cumsum_from (acc + x) xs). acc + x \<le> y"
    using cumsum_from_ge[OF rest] by blast
  with Cons.IH[OF rest] show ?case by simp
qed

lemma sorted_map_trunc: "sorted xs \<Longrightarrow> sorted (map trunc xs)"
  by (induction xs) (auto intro: trunc_mono)

text \<open>
  \<^bold>\<open>C3.\<close> In the model with several change points, the change-point indices of one
  posterior draw, as the builder declares them on line 97 (the running sums of the Dirichlet
  fractions, scaled by the number of observations and converted to integers), are
  non-decreasing. The fractions of a Dirichlet draw are not negative; nothing else about the
  draw is used. The statement is about the declared expression on any draw of fractions: the
  loop that follows the declaration is no part of it.
\<close>

theorem changepoints_non_decreasing:
  "\<forall>t\<in>set taus. 0 \<le> t \<Longrightarrow> sorted (changepoints n taus)"
proof -
  assume nonneg: "\<forall>t\<in>set taus. 0 \<le> t"
  have "\<forall>x\<in>set (map (\<lambda>t. t * real n) taus). 0 \<le> x"
    using nonneg by simp
  then have "sorted (cumsum (map (\<lambda>t. t * real n) taus))"
    unfolding cumsum_def by (rule cumsum_from_sorted)
  then show ?thesis
    unfolding changepoints_def by (rule sorted_map_trunc)
qed

text \<open>The theorem at a draw of three fractions over four observations: the change points
  are 1, 2 and 4.\<close>

theorem changepoints_non_decreasing_witness:
  "list_all (\<lambda>t. 0 \<le> t) [1 / 4, 1 / 4, 1 / 2 :: real] \<and>
   changepoints 4 [1 / 4, 1 / 4, 1 / 2] = [1, 2, 4] \<and>
   sorted (changepoints 4 [1 / 4, 1 / 4, 1 / 2])"
proof -
  have nonneg: "\<forall>t\<in>set [1 / 4, 1 / 4, 1 / 2 :: real]. 0 \<le> t" by simp
  have val: "changepoints 4 [1 / 4, 1 / 4, 1 / 2] = [1, 2, 4]"
    by (simp add: changepoints_def cumsum_def trunc_def)
  from changepoints_non_decreasing[OF nonneg, of 4] show ?thesis
    by (simp add: val)
qed

section \<open>Sampling: the model type\<close>

text \<open>
  \<^bold>\<open>C9.\<close> For every model type other than \<open>single\<close> and \<open>multiple\<close>, \<open>sample\<close>
  fails with a \<open>ValueError\<close> that names the type, before anything is built or sampled: the
  object is left as it was, so no model is constructed and no trace is stored.
\<close>

theorem sample_unknown_model_type:
  "mtype \<noteq> ''single'' \<Longrightarrow> mtype \<noteq> ''multiple'' \<Longrightarrow>
   sample pm_sample az_summary mtype kw self
     = (Inl (ValueError (''Unknown model type: '' @ mtype)), self)"
  by (simp add: sample_def)

text \<open>The theorem at the model type that the default configuration itself holds,
  \<open>single_change_point\<close>, which \<open>sample\<close> does not recognise.\<close>

theorem sample_unknown_model_type_witness:
  "''single_change_point'' \<noteq> ''single'' \<and> ''single_change_point'' \<noteq> ''multiple'' \<and>
   sample (\<lambda>m c. \<lparr>tau_var = Some [[1]], changepoints_var = None\<rparr>) (\<lambda>t. [])
       ''single_change_point'' no_kwargs (init [(10, Fin 1), (11, Fin 2)] None)
     = (Inl (ValueError ''Unknown model type: single_change_point''),
        init [(10, Fin 1), (11, Fin 2)] None) \<and>
   model (snd (sample (\<lambda>m c. \<lparr>tau_var = Some [[1]], changepoints_var = None\<rparr>) (\<lambda>t. [])
       ''single_change_point'' no_kwargs (init [(10, Fin 1), (11, Fin 2)] None))) = None \<and>
   trace (snd (sample (\<lambda>m c. \<lparr>tau_var = Some [[1]], changepoints_var = None\<rparr>) (\<lambda>t. [])
       ''single_change_point'' no_kwargs (init [(10, Fin 1), (11, Fin 2)] None))) = None"
  using sample_unknown_model_type
    [of "''single_change_point''" "\<lambda>m c. \<lparr>tau_var = Some [[1]], changepoints_var = None\<rparr>"
        "\<lambda>t. []" no_kwargs "init [(10, Fin 1), (11, Fin 2)] None"]
  by (simp add: init_def Let_def)

section \<open>The summary of a trace without a change point variable\<close>

text \<open>
  \<^bold>\<open>C8.\<close> When the posterior of the trace holds neither \<open>tau\<close> nor \<open>changepoints\<close>,
  the summary fails with the \<open>ValueError\<close> that says so; it returns no result.
\<close>

theorem no_change_point_variable_raises:
  "trace self = Some tr \<Longrightarrow> tau_var tr = None \<Longrightarrow> changepoints_var tr = None \<Longrightarrow>
   get_change_point_posterior hdi self
     = Inl (ValueError ''No change point variables found in trace'')"
  by (simp add: get_change_point_posterior_def)

text \<open>The theorem at a trace with neither variable.\<close>

theorem no_change_point_variable_raises_witness:
  "trace ((init [(10, Fin 1), (11, Fin 2)] None)
            \<lparr>trace := Some \<lparr>tau_var = None, changepoints_var = None\<rparr>\<rparr>)
     = Some \<lparr>tau_var = None, changepoints_var = None\<rparr> \<and>
   tau_var \<lparr>tau_var = None, changepoints_var = None\<rparr> = None \<and>
   changepoints_var \<lparr>tau_var = None, changepoints_var = None\<rparr> = None \<and>
   get_change_point_posterior sample_range
     ((init [(10, Fin 1), (11, Fin 2)] None)
        \<lparr>trace := Some \<lparr>tau_var = None, changepoints_var = None\<rparr>\<rparr>)
     = Inl (ValueError ''No change point variables found in trace'')"
  using no_change_point_variable_raises
    [of "(init [(10, Fin 1), (11, Fin 2)] None)
           \<lparr>trace := Some \<lparr>tau_var = None, changepoints_var = None\<rparr>\<rparr>"
        "\<lparr>tau_var = None, changepoints_var = None\<rparr>" sample_range]
  by simp

section \<open>The prior entries of the configuration\<close>

text \<open>
  \<^bold>\<open>C10.\<close> The entries \<open>tau_prior\<close>, \<open>mu_prior\<close> and \<open>sigma_prior\<close> of the
  configuration have no influence on the single change point model: two objects made from
  the same series with configurations that differ in those entries only are given the same
  model, whose priors are the ones written in the builder.
\<close>

theorem prior_entries_ignored:
  "mc_model_type mc = mc_model_type mc' \<Longrightarrow> mc_sampling mc = mc_sampling mc' \<Longrightarrow>
   mc_convergence mc = mc_convergence mc' \<Longrightarrow>
   fst (build_single_change_point_model (init s (Some mc)))
     = fst (build_single_change_point_model (init s (Some mc'))) \<and>
   (\<exists>m. fst (build_single_change_point_model (init s (Some mc))) = SingleModel m \<and>
        sm_tau m = Normal (real (length (dropna s)) / 2) (real (length (dropna s)) / 10) \<and>
        sm_k m = Exponential (1 / 5) \<and> sm_mu1 m = Normal 0 (2 / 100) \<and>
        sm_mu2 m = Normal 0 (2 / 100) \<and> sm_sigma m = HalfNormal (5 / 100))"
  by (simp add: build_single_change_point_model_def init_def Let_def)

text \<open>The theorem at two configurations, one that sets \<open>tau_prior\<close> and one that sets
  \<open>mu_prior\<close> and \<open>sigma_prior\<close>.\<close>

theorem prior_entries_ignored_witness:
  "fst (build_single_change_point_model (init [(10, Fin 1), (11, NaN), (12, Fin 3)]
      (Some \<lparr> mc_model_type = None,
              mc_tau_prior = Some [(''distribution'', Str ''uniform''), (''lower'', Num 0), (''upper'', Num 1)],
              mc_mu_prior = None, mc_sigma_prior = None,
              mc_sampling = None, mc_convergence = None \<rparr>)))
   = fst (build_single_change_point_model (init [(10, Fin 1), (11, NaN), (12, Fin 3)]
      (Some \<lparr> mc_model_type = None, mc_tau_prior = None,
              mc_mu_prior = Some [(''distribution'', Str ''normal''), (''mu'', Num 5), (''sigma'', Num 9)],
              mc_sigma_prior = Some [(''distribution'', Str ''halfnormal''), (''sigma'', Num 7)],
              mc_sampling = None, mc_convergence = None \<rparr>)))"
  using prior_entries_ignored
    [of "\<lparr> mc_model_type = None,
              mc_tau_prior = Some [(''distribution'', Str ''uniform''), (''lower'', Num 0), (''upper'', Num 1)],
              mc_mu_prior = None, mc_sigma_prior = None,
              mc_sampling = None, mc_convergence = None \<rparr>"
        "\<lparr> mc_model_type = None, mc_tau_prior = None,
              mc_mu_prior = Some [(''distribution'', Str ''normal''), (''mu'', Num 5), (''sigma'', Num 9)],
              mc_sigma_prior = Some [(''distribution'', Str ''halfnormal''), (''sigma'', Num 7)],
              mc_sampling = None, mc_convergence = None \<rparr>"
        "[(10, Fin 1), (11, NaN), (12, Fin 3)]"]
  by simp

section \<open>Convergence diagnostics: the two thresholds\<close>

lemma fold_fmax_Fin: "fold fmax (map Fin ys) (Fin y) = Fin (fold max ys y)"
  by (induction ys arbitrary: y) (auto simp: fmax_def max_def)

lemma fold_fmin_Fin: "fold fmin (map Fin ys) (Fin y) = Fin (fold min ys y)"
  by (induction ys arbitrary: y) (auto simp: fmin_def min_def)

lemma pd_max_Fin: "xs \<noteq> [] \<Longrightarrow> pd_max (map Fin xs) = Fin (Max (set xs))"
proof -
  assume "xs \<noteq> []"
  then obtain y ys where xs: "xs = y # ys" by (cases xs) auto
  have "filter (\<lambda>x. x \<noteq> NaN) (map Fin xs) = map Fin xs"
    by (induction xs) auto
  then have "pd_max (map Fin xs) = fold fmax (map Fin ys) (Fin y)"
    by (simp add: pd_max_def xs)
  also have "\<dots> = Fin (fold max ys y)" by (rule fold_fmax_Fin)
  also have "fold max ys y = Max (set xs)"
    unfolding xs by (simp only: Max.set_eq_fold)
  finally show ?thesis .
qed

lemma pd_min_Fin: "xs \<noteq> [] \<Longrightarrow> pd_min (map Fin xs) = Fin (Min (set xs))"
proof -
  assume "xs \<noteq> []"
  then obtain y ys where xs: "xs = y # ys" by (cases xs) auto
  have "filter (\<lambda>x. x \<noteq> NaN) (map Fin xs) = map Fin xs"
    by (induction xs) auto
  then have "pd_min (map Fin xs) = fold fmin (map Fin ys) (Fin y)"
    by (simp add: pd_min_def xs)
  also have "\<dots> = Fin (fold min ys y)" by (rule fold_fmin_Fin)
  also have "fold min ys y = Min (set xs)"
    unfolding xs by (simp only: Min.set_eq_fold)
  finally show ?thesis .
qed

text \<open>
  \<^bold>\<open>C4.\<close> On a trace with a summary of at least one parameter, the convergence check
  returns a report in which \<open>rhat_converged\<close> holds exactly when the largest R-hat of the
  summary is strictly below the configured \<open>rhat_threshold\<close>, and \<open>ess_sufficient\<close>
  exactly when the smallest bulk effective sample size is strictly above the configured
  \<open>ess_threshold\<close>. In particular, when the R-hat threshold is above 1, a summary whose
  R-hat values are all exactly 1 and whose effective sample sizes are all above the threshold
  gives both. Without a configuration of the caller's the thresholds are 1.01 and 400.
\<close>

theorem check_convergence_thresholds:
  assumes tr: "trace self = Some tr" and sm: "summary self = Some rows" and ne: "rows \<noteq> []"
  shows "\<exists>d. check_convergence self = Inr d \<and>
    (rhat_converged d \<longleftrightarrow>
       Max (set (map r_hat rows)) < rhat_threshold (convergence (config self))) \<and>
    (ess_sufficient d \<longleftrightarrow>
       ess_threshold (convergence (config self)) < Min (set (map ess_bulk rows))) \<and>
    (1 < rhat_threshold (convergence (config self)) \<and>
     (\<forall>r\<in>set rows. r_hat r = 1 \<and> ess_threshold (convergence (config self)) < ess_bulk r)
       \<longrightarrow> rhat_converged d \<and> ess_sufficient d) \<and>
    convergence (config (init s None)) = \<lparr> rhat_threshold = 101 / 100, ess_threshold = 400 \<rparr>"
proof -
  let ?c = "convergence (config self)"
  have rne: "map r_hat rows \<noteq> []" and ene: "map ess_bulk rows \<noteq> []" using ne by simp_all
  have rmax: "pd_max (map (\<lambda>r. Fin (r_hat r)) rows) = Fin (Max (set (map r_hat rows)))"
    using pd_max_Fin[OF rne] by (simp add: comp_def)
  have emin: "pd_min (map (\<lambda>r. Fin (ess_bulk r)) rows) = Fin (Min (set (map ess_bulk rows)))"
    using pd_min_Fin[OF ene] by (simp add: comp_def)
  obtain d where d: "check_convergence self = Inr d"
    and rc: "rhat_converged d \<longleftrightarrow> Max (set (map r_hat rows)) < rhat_threshold ?c"
    and es: "ess_sufficient d \<longleftrightarrow> ess_threshold ?c < Min (set (map ess_bulk rows))"
    using tr sm rmax emin by (simp add: check_convergence_def Let_def fgt_def)
  have "rhat_converged d \<and> ess_sufficient d"
    if thr: "1 < rhat_threshold ?c"
      and all: "\<forall>r\<in>set rows. r_hat r = 1 \<and> ess_threshold ?c < ess_bulk r"
  proof -
    have "Max (set (map r_hat rows)) \<in> set (map r_hat rows)"
      using rne by (intro Max_in) simp_all
    then have m1: "Max (set (map r_hat rows)) = 1" using all by auto
    have "Min (set (map ess_bulk rows)) \<in> set (map ess_bulk rows)"
      using ene by (intro Min_in) simp_all
    then have m2: "ess_threshold ?c < Min (set (map ess_bulk rows))" using all by auto
    show ?thesis using m1 m2 rc es thr by simp
  qed
  moreover have "convergence (config (init s None))
      = \<lparr> rhat_threshold = 101 / 100, ess_threshold = 400 \<rparr>"
    by (simp add: init_def default_config_def Let_def)
  ultimately show ?thesis using d rc es by blast
qed

text \<open>The theorem at a summary of two parameters with R-hat 1 and effective sample sizes
  500 and 450, under the default configuration.\<close>

theorem check_convergence_thresholds_witness:
  "trace ((init [(10, Fin 1), (11, Fin 2)] None)
       \<lparr>trace := Some \<lparr>tau_var = Some [[1]], changepoints_var = None\<rparr>,
        summary := Some [\<lparr>r_hat = 1, ess_bulk = 500, mcse_mean = 1 / 100, sd = 1\<rparr>,
                         \<lparr>r_hat = 1, ess_bulk = 450, mcse_mean = 1 / 50, sd = 1\<rparr>]\<rparr>)
     = Some \<lparr>tau_var = Some [[1]], changepoints_var = None\<rparr> \<and>
   check_convergence ((init [(10, Fin 1), (11, Fin 2)] None)
       \<lparr>trace := Some \<lparr>tau_var = Some [[1]], changepoints_var = None\<rparr>,
        summary := Some [\<lparr>r_hat = 1, ess_bulk = 500, mcse_mean = 1 / 100, sd = 1\<rparr>,
                         \<lparr>r_hat = 1, ess_bulk = 450, mcse_mean = 1 / 50, sd = 1\<rparr>]\<rparr>)
     = Inr \<lparr> rhat_max = Fin 1, rhat_converged = True, ess_min = Fin 450,
             ess_sufficient = True, trace_plots_ok = True, mcse_ratio_max = Fin (1 / 50) \<rparr>"
  using check_convergence_thresholds
    [of "(init [(10, Fin 1), (11, Fin 2)] None)
       \<lparr>trace := Some \<lparr>tau_var = Some [[1]], changepoints_var = None\<rparr>,
        summary := Some [\<lparr>r_hat = 1, ess_bulk = 500, mcse_mean = 1 / 100, sd = 1\<rparr>,
                         \<lparr>r_hat = 1, ess_bulk = 450, mcse_mean = 1 / 50, sd = 1\<rparr>]\<rparr>"
        "\<lparr>tau_var = Some [[1]], changepoints_var = None\<rparr>"
        "[\<lparr>r_hat = 1, ess_bulk = 500, mcse_mean = 1 / 100, sd = 1\<rparr>,
          \<lparr>r_hat = 1, ess_bulk = 450, mcse_mean = 1 / 50, sd = 1\<rparr>]"
        "[(10, Fin 1), (11, Fin 2)]"]
  by (simp add: check_convergence_def init_def dropna_def default_config_def pd_max_def
      pd_min_def fmax_def fmin_def fgt_def Let_def)

section \<open>The summary of a single change point\<close>

lemma py_int_Inr: "py_int x = Inr i \<Longrightarrow> x \<noteq> NZero \<Longrightarrow> \<exists>r. x = Fin r \<and> i = trunc r"
  by (cases x) auto

lemma pool_statistics_not_NZero:
  "np_mean (map Fin xs) \<noteq> NZero" "np_median xs \<noteq> NZero" "stats_mode xs \<noteq> NZero"
  by (simp_all add: np_mean_map_Fin np_median_def stats_mode_def Let_def split: list.splits)

lemma np_mean_Fin:
  "np_mean (map Fin xs) = Fin r \<Longrightarrow> xs \<noteq> [] \<and> r = sum_list xs / real (length xs)"
  by (auto simp: np_mean_map_Fin split: if_splits)

lemma np_median_Fin:
  "np_median xs = Fin r \<Longrightarrow>
   r = (if odd (length xs) then sort xs ! (length xs div 2)
        else (sort xs ! (length xs div 2 - 1) + sort xs ! (length xs div 2)) / 2)"
  by (auto simp: np_median_def Let_def split: if_splits)

lemma stats_mode_Fin:
  assumes "stats_mode xs = Fin v"
  shows "v \<in> set xs \<and> (\<forall>y\<in>set xs. count_list xs y \<le> count_list xs v) \<and>
         (\<forall>y\<in>set xs. (\<forall>z\<in>set xs. count_list xs z \<le> count_list xs y) \<longrightarrow> v \<le> y)"
proof -
  let ?P = "\<lambda>x. list_all (\<lambda>y. count_list xs y \<le> count_list xs x) xs"
  from assms obtain c cs where cands: "filter ?P xs = c # cs" and v: "v = fold min cs c"
    by (auto simp: stats_mode_def split: list.splits)
  have vmin: "v = Min (set (filter ?P xs))"
    unfolding cands v by (simp only: Min.set_eq_fold)
  have "v \<in> set (filter ?P xs)"
    unfolding vmin by (rule Min_in) (simp_all add: cands)
  then have "v \<in> set xs" and "?P v" by simp_all
  moreover have "v \<le> y" if "y \<in> set xs" and "\<forall>z\<in>set xs. count_list xs z \<le> count_list xs y" for y
  proof -
    from that have "y \<in> set (filter ?P xs)" by (simp add: list_all_iff)
    then show ?thesis unfolding vmin by (intro Min_le) simp_all
  qed
  ultimately show ?thesis by (auto simp: list_all_iff)
qed

lemma summarize_single_fields:
  assumes "summarize_single hdi ds tau = Inr p"
  shows "sp_samples p = concat tau \<and>
         py_int (np_mean (map Fin (concat tau))) = Inr (sp_mean p) \<and>
         py_int (np_median (concat tau)) = Inr (sp_median p) \<and>
         py_int (stats_mode (concat tau)) = Inr (sp_mode p) \<and>
         date_of_index ds (sp_mode p) = Inr (sp_mode_date p)"
  using assms by (auto simp: summarize_single_def Let_def dest!: ebind_Inr)

text \<open>
  \<^bold>\<open>C5\<close> (as the code has it). Whenever the summary of a trace with \<open>tau\<close> returns, the
  pool is the concatenation of the chains' draws and is not empty; the returned mean is the
  pool mean converted by \<open>int\<close>, that is truncated toward zero, and not rounded to the
  nearest integer; the returned median is the pool median truncated the same way; and the
  returned mode is the truncation of a draw that occurs most often in the pool of draws as
  they are (not rounded), the smallest such draw.
\<close>

theorem summary_statistics_truncated:
  assumes "trace self = Some tr" and "tau_var tr = Some tau"
    and "get_change_point_posterior hdi self = Inr (SingleInfo p)"
  shows "sp_samples p = concat tau \<and> concat tau \<noteq> [] \<and>
    sp_mean p = trunc (sum_list (concat tau) / real (length (concat tau))) \<and>
    sp_median p = trunc
      (if odd (length (concat tau)) then sort (concat tau) ! (length (concat tau) div 2)
       else (sort (concat tau) ! (length (concat tau) div 2 - 1)
             + sort (concat tau) ! (length (concat tau) div 2)) / 2) \<and>
    (\<exists>v\<in>set (concat tau). sp_mode p = trunc v \<and>
       (\<forall>y\<in>set (concat tau). count_list (concat tau) y \<le> count_list (concat tau) v) \<and>
       (\<forall>y\<in>set (concat tau).
          (\<forall>z\<in>set (concat tau). count_list (concat tau) z \<le> count_list (concat tau) y)
            \<longrightarrow> v \<le> y))"
proof -
  from assms have "summarize_single hdi (dates self) tau = Inr p"
    by (auto simp: get_change_point_posterior_def dest!: ebind_Inr)
  from summarize_single_fields[OF this]
  have samples: "sp_samples p = concat tau"
    and mean: "py_int (np_mean (map Fin (concat tau))) = Inr (sp_mean p)"
    and median: "py_int (np_median (concat tau)) = Inr (sp_median p)"
    and mode: "py_int (stats_mode (concat tau)) = Inr (sp_mode p)"
    by simp_all
  from py_int_Inr[OF mean pool_statistics_not_NZero(1)] obtain a
    where "np_mean (map Fin (concat tau)) = Fin a" and "sp_mean p = trunc a"
    by blast
  with np_mean_Fin have ne: "concat tau \<noteq> []"
    and m1: "sp_mean p = trunc (sum_list (concat tau) / real (length (concat tau)))"
    by blast+
  from py_int_Inr[OF median pool_statistics_not_NZero(2)] obtain b where "np_median (concat tau) = Fin b" and "sp_median p = trunc b"
    by blast
  with np_median_Fin have m2: "sp_median p = trunc
      (if odd (length (concat tau)) then sort (concat tau) ! (length (concat tau) div 2)
       else (sort (concat tau) ! (length (concat tau) div 2 - 1)
             + sort (concat tau) ! (length (concat tau) div 2)) / 2)"
    by blast
  from py_int_Inr[OF mode pool_statistics_not_NZero(3)] obtain v where "stats_mode (concat tau) = Fin v" and "sp_mode p = trunc v"
    by blast
  with stats_mode_Fin[of "concat tau" v]
  have m3: "\<exists>v\<in>set (concat tau). sp_mode p = trunc v \<and>
       (\<forall>y\<in>set (concat tau). count_list (concat tau) y \<le> count_list (concat tau) v) \<and>
       (\<forall>y\<in>set (concat tau).
          (\<forall>z\<in>set (concat tau). count_list (concat tau) z \<le> count_list (concat tau) y)
            \<longrightarrow> v \<le> y)"
    by blast
  from samples ne m1 m2 m3 show ?thesis by blast
qed

text \<open>The claim as the specification states it fails: on the pool 1.2, 1.3, 1.4, 5.4, 5.4
  the returned mean is 2 where the nearest integer to the pool mean 2.94 is 3, the returned
  median is 1 where the pool median is 1.4, and the returned mode is 5 where the most
  frequent rounded draw is 1.\<close>

theorem summary_statistics_counterexample:
  "get_change_point_posterior sample_range
     ((init [(10, Fin 1), (11, Fin 2), (12, Fin 3), (13, Fin 4), (14, Fin 5),
             (15, Fin 6), (16, Fin 7)] None)
        \<lparr>trace := Some \<lparr>tau_var = Some [[12 / 10, 13 / 10, 14 / 10, 54 / 10, 54 / 10]],
                         changepoints_var = None\<rparr>\<rparr>)
   = Inr (SingleInfo
       \<lparr> sp_samples = [12 / 10, 13 / 10, 14 / 10, 54 / 10, 54 / 10],
         sp_dates = [11, 11, 11, 15, 15],
         sp_mean = 2, sp_median = 1, sp_mode = 5,
         sp_mean_date = 12, sp_median_date = 11, sp_mode_date = 15,
         sp_hdi_95 = (12 / 10, 54 / 10), sp_hdi_95_dates = (11, 15) \<rparr>) \<and>
   nearest_index_mean [12 / 10, 13 / 10, 14 / 10, 54 / 10, 54 / 10] = 3 \<and>
   np_median [12 / 10, 13 / 10, 14 / 10, 54 / 10, 54 / 10] = Fin (14 / 10) \<and>
   mode_of_rounded [12 / 10, 13 / 10, 14 / 10, 54 / 10, 54 / 10] = Fin 1"
  by (simp add: summary_defs nearest_index_mean_def mode_of_rounded_def round_def)

text \<open>The theorem at the pool 1.9, 2.5 kept in two chains.\<close>

theorem summary_statistics_truncated_witness:
  "trace ((init [(10, Fin 1), (11, Fin 2), (12, Fin 3)] None)
            \<lparr>trace := Some \<lparr>tau_var = Some [[19 / 10], [5 / 2]], changepoints_var = None\<rparr>\<rparr>)
     = Some \<lparr>tau_var = Some [[19 / 10], [5 / 2]], changepoints_var = None\<rparr> \<and>
   get_change_point_posterior sample_range
     ((init [(10, Fin 1), (11, Fin 2), (12, Fin 3)] None)
        \<lparr>trace := Some \<lparr>tau_var = Some [[19 / 10], [5 / 2]], changepoints_var = None\<rparr>\<rparr>)
     = Inr (SingleInfo
         \<lparr> sp_samples = [19 / 10, 5 / 2], sp_dates = [11, 12],
           sp_mean = 2, sp_median = 2, sp_mode = 1,
           sp_mean_date = 12, sp_median_date = 12, sp_mode_date = 11,
           sp_hdi_95 = (19 / 10, 5 / 2), sp_hdi_95_dates = (11, 12) \<rparr>) \<and>
   trunc (sum_list (concat [[19 / 10], [5 / 2]]) / real (length (concat [[19 / 10 :: real], [5 / 2]])))
     = 2"
  using summary_statistics_truncated
    [of "(init [(10, Fin 1), (11, Fin 2), (12, Fin 3)] None)
            \<lparr>trace := Some \<lparr>tau_var = Some [[19 / 10], [5 / 2]], changepoints_var = None\<rparr>\<rparr>"
        "\<lparr>tau_var = Some [[19 / 10], [5 / 2]], changepoints_var = None\<rparr>"
        "[[19 / 10], [5 / 2]]" sample_range
        "\<lparr> sp_samples = [19 / 10, 5 / 2], sp_dates = [11, 12],
           sp_mean = 2, sp_median = 2, sp_mode = 1,
           sp_mean_date = 12, sp_median_date = 12, sp_mode_date = 11,
           sp_hdi_95 = (19 / 10, 5 / 2), sp_hdi_95_dates = (11, 12) \<rparr>"]
  by (simp add: summary_defs)

section \<open>The date lookups of the summary\<close>

text \<open>The lookup of a converted index: in range for an index that is not negative, wrapped
  to the end of the series for a negative index down to \<open>-n\<close>, and an \<open>IndexError\<close>
  below that. Only the upper side is clamped.\<close>

lemma date_of_index_in_range:
  "ds \<noteq> [] \<Longrightarrow> 0 \<le> i \<Longrightarrow>
   date_of_index ds i = Inr (ds ! (if i < int (length ds) then nat i else length ds - 1))"
  by (cases ds) (auto simp: date_of_index_def py_index_def nat_add_distrib)

lemma date_of_index_below:
  "i < - int (length ds) \<Longrightarrow> date_of_index ds i = Inl IndexError"
  by (auto simp: date_of_index_def py_index_def)

lemma date_of_index_wraps:
  "- int (length ds) \<le> i \<Longrightarrow> i < 0 \<Longrightarrow>
   date_of_index ds i = Inr (ds ! nat (int (length ds) + i))"
  by (auto simp: date_of_index_def py_index_def)

text \<open>
  \<^bold>\<open>C2\<close> (the code at negative draws). On a series of three observations, a trace whose
  only \<open>tau\<close> draw is -5 makes the summary raise \<open>IndexError\<close>: the date lookup is out
  of range. With the draw -2 the summary returns the indices -2, outside \<open>[0, 2]\<close>, and
  each lookup wraps to the second date.
\<close>

theorem negative_tau_lookup_raises:
  "get_change_point_posterior sample_range
     ((init [(10, Fin 1), (11, Fin 2), (12, Fin 3)] None)
        \<lparr>trace := Some \<lparr>tau_var = Some [[- 5]], changepoints_var = None\<rparr>\<rparr>)
   = Inl IndexError \<and>
   get_change_point_posterior sample_range
     ((init [(10, Fin 1), (11, Fin 2), (12, Fin 3)] None)
        \<lparr>trace := Some \<lparr>tau_var = Some [[- 2]], changepoints_var = None\<rparr>\<rparr>)
   = Inr (SingleInfo
       \<lparr> sp_samples = [- 2], sp_dates = [11], sp_mean = - 2, sp_median = - 2, sp_mode = - 2,
         sp_mean_date = 11, sp_median_date = 11, sp_mode_date = 11,
         sp_hdi_95 = (- 2, - 2), sp_hdi_95_dates = (11, 11) \<rparr>)"
  by (simp add: summary_defs)

section \<open>Impact analysis\<close>

lemma filter_upt_range: "filter (\<lambda>i. l \<le> i \<and> i < h) [0..<n] = [l..<min h n]"
proof (induction n)
  case 0
  then show ?case by simp
next
  case (Suc n)
  show ?case
  proof (cases "n < h")
    case True
    then have "min h (Suc n) = Suc n" and "min h n = n" by simp_all
    with Suc True show ?thesis by (cases "l \<le> n") simp_all
  next
    case False
    then have "min h (Suc n) = h" and "min h n = h" by simp_all
    with Suc False show ?thesis by simp
  qed
qed

lemma take_drop_nth: "h \<le> length xs \<Longrightarrow> take (h - l) (drop l xs) = map ((!) xs) [l..<h]"
  by (rule nth_equalityI) auto

lemma py_slice_index_range:
  assumes "0 \<le> a" and "0 \<le> b"
  shows "py_slice xs a b = index_range xs a b"
proof -
  let ?n = "length xs"
  have cond: "(\<lambda>i. a \<le> int i \<and> int i < b) = (\<lambda>i. nat a \<le> i \<and> i < nat b)"
    using assms by (intro ext) linarith
  have "index_range xs a b = map ((!) xs) [nat a..<min (nat b) ?n]"
    by (simp add: index_range_def cond filter_upt_range)
  also have "\<dots> = take (min (nat b) ?n - nat a) (drop (nat a) xs)"
    by (simp add: take_drop_nth)
  also have "\<dots> = take (min (nat b) ?n - min (nat a) ?n) (drop (min (nat a) ?n) xs)"
    by (cases "nat a \<le> ?n") (simp_all add: min_def)
  also have "\<dots> = py_slice xs a b"
    using assms by (simp add: py_slice_def slice_bound_def Let_def)
  finally show ?thesis by simp
qed

lemma before_window_index_range:
  "0 \<le> m \<Longrightarrow> before_window xs m wb = index_range xs (max 0 (m - wb)) m"
  by (simp add: before_window_def py_slice_index_range)

lemma after_window_index_range:
  "0 \<le> m \<Longrightarrow> 0 \<le> m + wa \<Longrightarrow>
   after_window xs m wa = index_range xs m (min (int (length xs)) (m + wa))"
  by (simp add: after_window_def py_slice_index_range)





text \<open>Away from the zeros the percent change is the quotient of the reals.\<close>

lemma percent_change_finite:
  "bm \<noteq> 0 \<Longrightarrow> am \<noteq> bm \<Longrightarrow>
   fmul (fdiv (fsub (Fin am) (Fin bm)) (Fin bm)) (Fin 100) = Fin ((am - bm) / bm * 100)"
  by (simp add: float_defs)

lemma percent_change_100_110:
  "fmul (fdiv (fsub (Fin 110) (Fin 100)) (Fin 100)) (Fin 100) = Fin 10"
  by (simp add: float_defs)

lemma impact_single_nonnegative_mode:
  assumes "0 \<le> sp_mode p" and "0 \<le> sp_mode p + wa"
  shows "before (impact_single xs wb wa p)
     = \<lparr> ws_mean = np_mean (index_range xs (max 0 (sp_mode p - wb)) (sp_mode p)),
         ws_std = np_std (index_range xs (max 0 (sp_mode p - wb)) (sp_mode p)),
         ws_n_obs = length (index_range xs (max 0 (sp_mode p - wb)) (sp_mode p)) \<rparr>"
    and "after (impact_single xs wb wa p)
     = \<lparr> ws_mean = np_mean (index_range xs (sp_mode p) (min (int (length xs)) (sp_mode p + wa))),
         ws_std = np_std (index_range xs (sp_mode p) (min (int (length xs)) (sp_mode p + wa))),
         ws_n_obs = length (index_range xs (sp_mode p) (min (int (length xs)) (sp_mode p + wa))) \<rparr>"
    and "impact (impact_single xs wb wa p)
     = \<lparr> mean_change = fsub (ws_mean (after (impact_single xs wb wa p)))
                             (ws_mean (before (impact_single xs wb wa p))),
         percent_change =
           fmul (fdiv (fsub (ws_mean (after (impact_single xs wb wa p)))
                            (ws_mean (before (impact_single xs wb wa p))))
                      (ws_mean (before (impact_single xs wb wa p)))) (Fin 100),
         volatility_change = fsub (ws_std (after (impact_single xs wb wa p)))
                                  (ws_std (before (impact_single xs wb wa p))),
         effect_size = fdiv (fsub (ws_mean (after (impact_single xs wb wa p)))
                                  (ws_mean (before (impact_single xs wb wa p))))
                            (ws_std (before (impact_single xs wb wa p))) \<rparr>"
  using assms
  by (simp_all add: impact_single_def Let_def before_window_index_range after_window_index_range)

text \<open>
  \<^bold>\<open>C6\<close> (the code at a negative mode). On the series 1, 3, 5, 7 with the single draw
  -2 and windows of 30, the slice bounds that are negative count from the end of the
  series: the before window is the first two observations where the range
  \<open>[max(0, m - 30), m)\<close> holds no index, and the after window is the last two where the
  range \<open>[m, min(n, m + 30))\<close> holds every index. For a mode that is not negative the
  windows are those ranges (\<open>before_window_index_range\<close>, \<open>after_window_index_range\<close>).
\<close>

theorem negative_mode_windows:
  "calculate_impact sample_range 30 30
     ((init [(10, Fin 1), (11, Fin 3), (12, Fin 5), (13, Fin 7)] None)
        \<lparr>trace := Some \<lparr>tau_var = Some [[- 2]], changepoints_var = None\<rparr>\<rparr>)
   = Inr (SingleImpact
       \<lparr> change_point_index = - 2, change_point_date = 12,
         before = \<lparr> ws_mean = Fin 2, ws_std = Fin 1, ws_n_obs = 2 \<rparr>,
         after = \<lparr> ws_mean = Fin 6, ws_std = Fin 1, ws_n_obs = 2 \<rparr>,
         impact = \<lparr> mean_change = Fin 4, percent_change = Fin 200,
                    volatility_change = Fin 0, effect_size = Fin 4 \<rparr> \<rparr>) \<and>
   before_window [Fin 1, Fin 3, Fin 5, Fin 7] (- 2) 30 = [Fin 1, Fin 3] \<and>
   index_range [Fin 1, Fin 3, Fin 5, Fin 7] (max 0 (- 2 - 30)) (- 2) = [] \<and>
   after_window [Fin 1, Fin 3, Fin 5, Fin 7] (- 2) 30 = [Fin 5, Fin 7] \<and>
   index_range [Fin 1, Fin 3, Fin 5, Fin 7] (- 2) (min 4 (- 2 + 30))
     = [Fin 1, Fin 3, Fin 5, Fin 7]"
proof -
  let ?self = "(init [(10, Fin 1), (11, Fin 3), (12, Fin 5), (13, Fin 7)] None)
        \<lparr>trace := Some \<lparr>tau_var = Some [[- 2]], changepoints_var = None\<rparr>\<rparr>"
  have post: "get_change_point_posterior sample_range ?self
      = Inr (SingleInfo
         \<lparr> sp_samples = [- 2], sp_dates = [12], sp_mean = - 2, sp_median = - 2,
           sp_mode = - 2, sp_mean_date = 12, sp_median_date = 12, sp_mode_date = 12,
           sp_hdi_95 = (- 2, - 2), sp_hdi_95_dates = (12, 12) \<rparr>)"
    by (simp add: summary_defs)
  have self: "data ?self = [Fin 1, Fin 3, Fin 5, Fin 7]"
    "trace ?self = Some \<lparr>tau_var = Some [[- 2]], changepoints_var = None\<rparr>"
    by (simp_all add: init_def dropna_def Let_def)
  have windows: "before_window [Fin 1, Fin 3, Fin 5, Fin 7] (- 2) 30 = [Fin 1, Fin 3]"
    "after_window [Fin 1, Fin 3, Fin 5, Fin 7] (- 2) 30 = [Fin 5, Fin 7]"
    by (simp_all add: window_defs)
  have ranges: "index_range [Fin 1, Fin 3, Fin 5, Fin 7] (max 0 (- 2 - 30)) (- 2) = []"
    "index_range [Fin 1, Fin 3, Fin 5, Fin 7] (- 2) (min 4 (- 2 + 30))
       = [Fin 1, Fin 3, Fin 5, Fin 7]"
    by (simp_all add: index_range_def upt_rec)
  have stats: "np_mean [Fin 1, Fin 3] = Fin 2" "np_std [Fin 1, Fin 3] = Fin 1"
    "np_mean [Fin 5, Fin 7] = Fin 6" "np_std [Fin 5, Fin 7] = Fin 1"
    by (simp_all add: stats_defs)
  have "calculate_impact sample_range 30 30 ?self
   = Inr (SingleImpact
       \<lparr> change_point_index = - 2, change_point_date = 12,
         before = \<lparr> ws_mean = Fin 2, ws_std = Fin 1, ws_n_obs = 2 \<rparr>,
         after = \<lparr> ws_mean = Fin 6, ws_std = Fin 1, ws_n_obs = 2 \<rparr>,
         impact = \<lparr> mean_change = Fin 4, percent_change = Fin 200,
                    volatility_change = Fin 0, effect_size = Fin 4 \<rparr> \<rparr>)"
    by (simp add: calculate_impact_def post self impact_single_def Let_def windows stats
        float_defs)
  with windows ranges show ?thesis by simp
qed




section \<open>The multiple change point variant\<close>

text \<open>On a series that is not empty the builder raises in the first iteration of its loop
  and stores no model; \<open>sample\<close> passes the exception on before \<open>pm.sample\<close> runs, so
  the object keeps the trace it had.\<close>

lemma build_multiple_raises:
  assumes "0 < n_obs self"
  shows "build_multiple_change_points_model k self
           = (Inl (if 0 < k then TypeError
                   else ValueError ''setting an array element with a sequence.''), self)"
proof -
  from assms have "[0..<n_obs self] = 0 # [1..<n_obs self]"
    by (simp add: upt_conv_Cons)
  then show ?thesis
    by (simp add: build_multiple_change_points_model_def)
qed

lemma sample_multiple_raises:
  assumes "0 < n_obs self"
  shows "\<exists>e. sample pm_sample az_summary ''multiple'' kw self = (Inl e, self)"
  using build_multiple_raises[OF assms] by (simp add: sample_def)

text \<open>The summary of a trace with \<open>changepoints\<close> gives one estimate for every position of
  the last axis of the array, in the order of the positions; a draw of the declared change
  points has as many entries as there are Dirichlet fractions, \<open>n_changepoints + 1\<close>.\<close>

lemma emap_length: "emap f xs = Inr ys \<Longrightarrow> length ys = length xs"
proof (induction xs arbitrary: ys)
  case Nil
  then show ?case by simp
next
  case (Cons x xs)
  from Cons.prems obtain y where "f x = Inr y"
    and "ebind (emap f xs) (\<lambda>zs. Inr (y # zs)) = Inr ys"
    by (auto dest!: ebind_Inr)
  then obtain zs where "emap f xs = Inr zs" and "ys = y # zs"
    by (auto dest!: ebind_Inr)
  with Cons.IH show ?case by simp
qed

lemma emap_nth: "emap f xs = Inr ys \<Longrightarrow> i < length xs \<Longrightarrow> f (xs ! i) = Inr (ys ! i)"
proof (induction xs arbitrary: ys i)
  case Nil
  then show ?case by simp
next
  case (Cons x xs)
  from Cons.prems(1) obtain y where fx: "f x = Inr y"
    and "ebind (emap f xs) (\<lambda>zs. Inr (y # zs)) = Inr ys"
    by (auto dest!: ebind_Inr)
  then obtain zs where zs: "emap f xs = Inr zs" and ys: "ys = y # zs"
    by (auto dest!: ebind_Inr)
  show ?case
  proof (cases i)
    case 0
    with fx ys show ?thesis by simp
  next
    case (Suc j)
    with Cons.prems(2) have "j < length xs" by simp
    from Cons.IH[OF zs this] Suc ys show ?thesis by simp
  qed
qed

lemma length_changepoints: "length (changepoints n taus) = length taus"
proof -
  have "length (cumsum_from acc xs) = length xs" for acc xs
    by (induction xs arbitrary: acc) auto
  then show ?thesis by (simp add: changepoints_def cumsum_def)
qed

lemma summarize_one_index: "summarize_one hdi ds arr i = Inr r \<Longrightarrow> ce_index r = i"
  by (auto simp: summarize_one_def Let_def dest!: ebind_Inr)

lemma multiple_summary_length:
  assumes "trace self = Some tr" and "tau_var tr = None" and "changepoints_var tr = Some arr"
    and "get_change_point_posterior hdi self = Inr info"
  shows "\<exists>rs. info = MultipleInfo rs \<and> length rs = cp_shape2 arr \<and>
              map ce_index rs = [0..<cp_shape2 arr]"
proof -
  from assms obtain rs where rs: "emap (summarize_one hdi (dates self) arr) [0..<cp_shape2 arr] = Inr rs"
    and info: "info = MultipleInfo rs"
    by (auto simp: get_change_point_posterior_def dest!: ebind_Inr)
  have len: "length rs = cp_shape2 arr" using emap_length[OF rs] by simp
  have "ce_index (rs ! i) = i" if "i < cp_shape2 arr" for i
  proof -
    have "summarize_one hdi (dates self) arr ([0..<cp_shape2 arr] ! i) = Inr (rs ! i)"
      using emap_nth[OF rs] that by simp
    then show ?thesis using that by (simp add: summarize_one_index)
  qed
  then have "map ce_index rs = [0..<cp_shape2 arr]"
    using len by (intro nth_equalityI) simp_all
  with info len show ?thesis by blast
qed

text \<open>
  \<^bold>\<open>C7\<close> (the code at one change point). On a series of four observations,
  \<open>sample\<close> with the model type \<open>multiple\<close> and one change point raises the
  \<open>TypeError\<close> of the builder's loop and leaves the object as it was, whatever the sampler
  is; the object has no trace, and the summary raises the \<open>ValueError\<close> that says so.
  The variant configured with one change point yields no estimate.
\<close>

theorem multiple_variant_yields_no_estimates:
  "sample pm_sample az_summary ''multiple'' (no_kwargs\<lparr>kw_n_changepoints := Some 1\<rparr>)
       (init [(10, Fin 1), (11, Fin 3), (12, Fin 5), (13, Fin 7)] None)
     = (Inl TypeError, init [(10, Fin 1), (11, Fin 3), (12, Fin 5), (13, Fin 7)] None) \<and>
   get_change_point_posterior hdi
       (init [(10, Fin 1), (11, Fin 3), (12, Fin 5), (13, Fin 7)] None)
     = Inl (ValueError ''No trace available. Run sampling first.'')"
proof -
  let ?self = "init [(10, Fin 1), (11, Fin 3), (12, Fin 5), (13, Fin 7)] None"
  have n: "0 < n_obs ?self" and tr: "trace ?self = None"
    by (simp_all add: init_def dropna_def Let_def)
  have "sample pm_sample az_summary ''multiple'' (no_kwargs\<lparr>kw_n_changepoints := Some 1\<rparr>) ?self
      = (Inl TypeError, ?self)"
    using build_multiple_raises[OF n, of 1] by (simp add: sample_def no_kwargs_def)
  moreover have "get_change_point_posterior hdi ?self
      = Inl (ValueError ''No trace available. Run sampling first.'')"
    using tr by (simp add: get_change_point_posterior_def no_trace_def)
  ultimately show ?thesis by simp
qed

end
